theory Spec2Isabelle
  imports Main "HOL-Library.Word"
begin

unbundle bit_operations_syntax

section \<open>Machine values\<close>

text \<open>
  \<^verbatim>\<open>uint\<close> is a 32-bit unsigned integer. A \<^verbatim>\<open>double\<close> is kept as its IEEE-754 binary64 bit
  pattern (1 sign bit, 11 exponent bits, 52 fraction bits), so that two doubles are equal
  exactly when they agree bit for bit. The comparisons of the source are the IEEE ones:
  they are false as soon as one operand is a NaN, and otherwise compare the values.
  \<open>double_scaled d\<close> is the value of \<open>d\<close> multiplied by \<open>2 ^ 1074\<close>, an integer for every
  finite double; an infinity (exponent 2047, fraction 0) gets a magnitude above every finite
  one, and both zeros get 0.
\<close>

type_synonym uint = "32 word"

type_synonym double = "64 word"

definition double_exponent :: "double \<Rightarrow> nat" where
  "double_exponent d = unat (take_bit 11 (drop_bit 52 d))"

definition double_fraction :: "double \<Rightarrow> nat" where
  "double_fraction d = unat (take_bit 52 d)"

definition double_isnan :: "double \<Rightarrow> bool" where
  "double_isnan d = (double_exponent d = 2047 \<and> double_fraction d \<noteq> 0)"

definition double_magnitude :: "double \<Rightarrow> nat" where
  "double_magnitude d =
     (if double_exponent d = 0 then double_fraction d
      else (2 ^ 52 + double_fraction d) * 2 ^ (double_exponent d - 1))"

definition double_scaled :: "double \<Rightarrow> int" where
  "double_scaled d =
     (if bit d 63 then - int (double_magnitude d) else int (double_magnitude d))"

text \<open>\<^verbatim>\<open>a < b\<close> and \<^verbatim>\<open>a <= b\<close> on doubles; \<^verbatim>\<open>a > b\<close> is \<open>double_less b a\<close>.\<close>

definition double_less :: "double \<Rightarrow> double \<Rightarrow> bool" where
  "double_less a b =
     (\<not> double_isnan a \<and> \<not> double_isnan b \<and> double_scaled a < double_scaled b)"

definition double_le :: "double \<Rightarrow> double \<Rightarrow> bool" where
  "double_le a b =
     (\<not> double_isnan a \<and> \<not> double_isnan b \<and> double_scaled a \<le> double_scaled b)"

text \<open>The double literals used below: 0.0, 1.0, 5.0, 7.0, 10.0, 100.0 and 200.0.\<close>

definition double_0 :: double where "double_0 = 0x0000000000000000"
definition double_1 :: double where "double_1 = 0x3FF0000000000000"
definition double_5 :: double where "double_5 = 0x4014000000000000"
definition double_7 :: double where "double_7 = 0x401C000000000000"
definition double_10 :: double where "double_10 = 0x4024000000000000"
definition double_100 :: double where "double_100 = 0x4059000000000000"
definition double_200 :: double where "double_200 = 0x4069000000000000"

text \<open>Decimal output of an unsigned number, as \<^verbatim>\<open>operator<<\<close> writes it to a stream.\<close>

fun show_nat :: "nat \<Rightarrow> string" where
  "show_nat n =
     (if n < 10 then [''0123456789'' ! n]
      else show_nat (n div 10) @ [''0123456789'' ! (n mod 10)])"

declare show_nat.simps [simp del]

section \<open>Eigen matrices and vectors\<close>

text \<open>
  An \<^verbatim>\<open>Eigen::MatrixXd\<close> has a run-time number of rows and columns and stores its
  \<open>rows * cols\<close> coefficients column by column. \<^verbatim>\<open>m(i, j)\<close> asserts
  \<^verbatim>\<open>i < rows() && j < cols()\<close>; a failed assertion ends the program, which the model
  returns as an error. The default-constructed matrix is the 0 by 0 one. An
  \<^verbatim>\<open>Eigen::VectorXd\<close> is a list of doubles, an \<^verbatim>\<open>Eigen::VectorXi\<close> a list of
  integers. \<^verbatim>\<open>rows()\<close>, \<^verbatim>\<open>cols()\<close> and \<^verbatim>\<open>size()\<close> return an \<^verbatim>\<open>Eigen::Index\<close>, a
  signed 64-bit integer that is never negative: a natural number in the model.
  \<^verbatim>\<open>static_cast<uint>\<close> of such a count keeps its low 32 bits. Where a \<^verbatim>\<open>uint\<close> meets
  an \<^verbatim>\<open>Eigen::Index\<close> in a comparison or as an index, it is converted to the wider type,
  its value unchanged (\<open>unat\<close>).
\<close>

datatype error = eigen_assert_failure | bad_any_cast | csv_read_failure | MalformedPayload

record MatrixXd =
  rows :: nat
  cols :: nat
  data :: "double list"

definition static_cast_uint :: "nat \<Rightarrow> uint" where
  "static_cast_uint n = word_of_nat n"

definition MatrixXd_default :: MatrixXd where
  "MatrixXd_default = \<lparr>rows = 0, cols = 0, data = []\<rparr>"

definition coeff :: "MatrixXd \<Rightarrow> nat \<Rightarrow> nat \<Rightarrow> error + double" where
  "coeff m i j =
     (if i < rows m \<and> j < cols m then Inr (data m ! (i + j * rows m))
      else Inl eigen_assert_failure)"

text \<open>The matrix whose rows are the given lists, each of length \<open>c\<close>.\<close>

definition matrix_of_rows :: "nat \<Rightarrow> double list list \<Rightarrow> MatrixXd" where
  "matrix_of_rows c rs =
     \<lparr>rows = length rs, cols = c, data = concat (map (\<lambda>j. map (\<lambda>r. r ! j) rs) [0..<c])\<rparr>"

section \<open>The sensor data of \<^verbatim>\<open>input/magnetism.cpp\<close>\<close>

text \<open>
  Modelled from the spec: the declarations of \<^verbatim>\<open>WorldSpec\<close>, \<^verbatim>\<open>VoxelSpec\<close>,
  \<^verbatim>\<open>NoiseSpec\<close>, \<^verbatim>\<open>MagSpec\<close>, \<^verbatim>\<open>MagResults\<close> and of the enumeration
  \<^verbatim>\<open>ForwardModel\<close> are not among the sources. The records have the fields the source
  reads and writes, with the types of section 3 of the specification: locations are a matrix
  of reals, resolutions and the supersampling factor unsigned integers, noise hyperparameters
  reals, readings a sequence of reals, and world bounds a (min, max) pair per horizontal axis.
\<close>

record WorldSpec =
  xBounds :: "double \<times> double"
  yBounds :: "double \<times> double"

record VoxelSpec =
  xResolution :: uint
  yResolution :: uint
  zResolution :: uint
  supersample :: uint

record NoiseSpec =
  inverseGammaAlpha :: double
  inverseGammaBeta :: double

record MagSpec =
  locations :: MatrixXd
  voxelisation :: VoxelSpec
  noise :: NoiseSpec
  backgroundField :: "double list"

record MagResults =
  likelihood :: double
  readings :: "double list"

datatype ForwardModel = GRAVITY | MAGNETICS | THERMAL

section \<open>\<^verbatim>\<open>validateSensor\<close>\<close>

text \<open>
  The function keeps a local \<^verbatim>\<open>bool valid = true\<close>; every failing check runs
  \<^verbatim>\<open>LOG(ERROR) << ...; valid = false;\<close>. The model threads the pair of \<^verbatim>\<open>valid\<close>
  and the lines logged so far, and \<open>fail_check\<close> is the body of a failing branch.
\<close>

type_synonym validation = "bool \<times> string list"

definition fail_check :: "string \<Rightarrow> validation \<Rightarrow> validation" where
  "fail_check line st = (False, snd st @ [line])"

text \<open>
  The condition of the loop body,
  \<^verbatim>\<open>locations(l,0) < xBounds.first || locations(l,0) > xBounds.second ||
  locations(l,1) < yBounds.first || locations(l,1) > yBounds.second\<close>,
  with the short-circuit evaluation of \<^verbatim>\<open>||\<close>: column 1 is read only when the two
  tests on column 0 are false.
\<close>

definition out_of_world_bounds :: "WorldSpec \<Rightarrow> MatrixXd \<Rightarrow> nat \<Rightarrow> error + bool" where
  "out_of_world_bounds world m l =
     (case coeff m l 0 of
        Inl e \<Rightarrow> Inl e
      | Inr x \<Rightarrow>
          if double_less x (fst (xBounds world)) then Inr True
          else if double_less (snd (xBounds world)) x then Inr True
          else (case coeff m l 1 of
                  Inl e \<Rightarrow> Inl e
                | Inr y \<Rightarrow>
                    Inr (double_less y (fst (yBounds world))
                         \<or> double_less (snd (yBounds world)) y)))"

text \<open>
  The line of the loop body. \<^verbatim>\<open>(l + 1)\<close> is computed in \<^verbatim>\<open>uint\<close>, where it wraps.
\<close>

definition out_of_bounds_line :: "uint \<Rightarrow> string" where
  "out_of_bounds_line l =
     ''input: magnetism location '' @ show_nat (unat (l + 1)) @ '' is out of world bounds''"

text \<open>
  \<^verbatim>\<open>for (uint l = 0; l < spec.locations.rows(); l++)\<close>, from counter \<open>l\<close> on. The
  counter is a \<^verbatim>\<open>uint\<close> and \<^verbatim>\<open>l++\<close> wraps from \<open>2 ^ 32 - 1\<close> to 0, so the loop
  need not end: the result is \<open>None\<close> when it runs forever, \<open>Some (Inl e)\<close> when a read
  fails its assertion, and \<open>Some (Inr st)\<close> when it ends with \<^verbatim>\<open>valid\<close> and the log
  as in \<open>st\<close>.
\<close>

partial_function (option) check_locations ::
  "WorldSpec \<Rightarrow> MatrixXd \<Rightarrow> uint \<Rightarrow> validation \<Rightarrow> (error + validation) option" where
  "check_locations world m l st =
     (if unat l < rows m then
        (case out_of_world_bounds world m (unat l) of
           Inl e \<Rightarrow> Some (Inl e)
         | Inr outside \<Rightarrow>
             check_locations world m (l + 1)
               (if outside then fail_check (out_of_bounds_line l) st else st))
      else Some (Inr st))"

definition no_locations_line :: string where
  "no_locations_line =
     ''input: no magnetism locations specified. Disable forward model if it is not used.''"

definition three_cols_line :: string where
  "three_cols_line = ''input: locations in magnetism must have three cols (x, y, z).''"

definition voxelisation_line :: string where
  "voxelisation_line = ''input: magnetism voxelisation (x, y, z)must be greater than 0.''"

definition noise_line :: string where
  "noise_line = ''input: magnetism noise parameters must be greater than 0''"

definition readings_line :: "nat \<Rightarrow> nat \<Rightarrow> string" where
  "readings_line nreadings nrows =
     ''input: different number of readings for magnetism results ('' @ show_nat nreadings
     @ '') to location specified. Remove or add more locations ('' @ show_nat nrows @ '').''"

text \<open>The three checks before the loop and the three after it, in the order of the source.\<close>

definition checks_before_loop :: "MagSpec \<Rightarrow> validation" where
  "checks_before_loop spec =
     (let st0 = (True, []);
          st1 = (if rows (locations spec) = 0 then fail_check no_locations_line st0 else st0)
      in if static_cast_uint (cols (locations spec)) \<noteq> 3
         then fail_check three_cols_line st1 else st1)"

definition checks_after_loop :: "MagSpec \<Rightarrow> MagResults \<Rightarrow> validation \<Rightarrow> validation" where
  "checks_after_loop spec result st3 =
     (let st4 = (if xResolution (voxelisation spec) \<le> 0
                    \<or> yResolution (voxelisation spec) \<le> 0
                    \<or> zResolution (voxelisation spec) \<le> 0
                 then fail_check voxelisation_line st3 else st3);
          st5 = (if double_le (inverseGammaAlpha (noise spec)) double_0
                    \<or> double_le (inverseGammaAlpha (noise spec)) double_0
                 then fail_check noise_line st4 else st4)
      in if unat (static_cast_uint (rows (locations spec))) \<noteq> length (readings result)
         then fail_check
                (readings_line (length (readings result)) (rows (locations spec))) st5
         else st5)"

text \<open>
  The whole function. It returns \<^verbatim>\<open>valid\<close>; the model returns it with the lines logged,
  \<open>Some (Inl e)\<close> when the loop ended the program, and \<open>None\<close> when the loop never ends.
\<close>

definition validateSensor ::
  "WorldSpec \<Rightarrow> MagSpec \<Rightarrow> MagResults \<Rightarrow> (error + validation) option" where
  "validateSensor world spec result =
     (case check_locations world (locations spec) 0 (checks_before_loop spec) of
        None \<Rightarrow> None
      | Some (Inl e) \<Rightarrow> Some (Inl e)
      | Some (Inr st3) \<Rightarrow> Some (Inr (checks_after_loop spec result st3)))"

text \<open>
  The six generic checks as section 4.5 of the specification words them, in its order:
  location count above 0, exactly 3 columns, every location's x and y within the world
  bounds, all three resolutions strictly positive, both noise hyperparameters strictly
  positive, reading count equal to location count. Each entry tells whether the check
  passes.
\<close>

definition within_world_bounds :: "WorldSpec \<Rightarrow> MatrixXd \<Rightarrow> nat \<Rightarrow> bool" where
  "within_world_bounds world m l =
     (case (coeff m l 0, coeff m l 1) of
        (Inr x, Inr y) \<Rightarrow>
          double_le (fst (xBounds world)) x \<and> double_le x (snd (xBounds world))
          \<and> double_le (fst (yBounds world)) y \<and> double_le y (snd (yBounds world))
      | _ \<Rightarrow> False)"

definition generic_checks :: "WorldSpec \<Rightarrow> MagSpec \<Rightarrow> MagResults \<Rightarrow> bool list" where
  "generic_checks world spec result =
     [0 < rows (locations spec),
      cols (locations spec) = 3,
      list_all (within_world_bounds world (locations spec)) [0..<rows (locations spec)],
      0 < xResolution (voxelisation spec) \<and> 0 < yResolution (voxelisation spec)
        \<and> 0 < zResolution (voxelisation spec),
      double_less double_0 (inverseGammaAlpha (noise spec))
        \<and> double_less double_0 (inverseGammaBeta (noise spec)),
      length (readings result) = rows (locations spec)]"

section \<open>Reading the configuration\<close>

text \<open>
  A \<^verbatim>\<open>po::variables_map\<close> maps option names to typed values. \<^verbatim>\<open>vm[name].as<T>()\<close>
  throws \<^verbatim>\<open>bad_any_cast\<close> when the option is absent or holds another type. The components
  of an \<^verbatim>\<open>Eigen::Vector3i\<close> are integers, and \<^verbatim>\<open>uint(x)\<close> reduces one modulo \<open>2 ^ 32\<close>
  (\<open>word_of_int\<close>). The file reader
  \<^verbatim>\<open>io::csv::read\<close> is not among the sources and is a parameter \<open>files\<close> of the model,
  from a path to the table read or to a failure. Every option looked up and every file
  read is recorded, in order, in a trace that the functions thread; an exception ends the
  function with the trace so far.
\<close>

datatype variable_value =
    bool_value bool
  | string_value string
  | Vector3i_value int int int
  | double_value double
  | uint_value uint
  | Vector3d_value double double double

type_synonym variables_map = "string \<Rightarrow> variable_value option"

datatype access = option_read string | file_read string

type_synonym 'a reader = "access list \<Rightarrow> (error + 'a) \<times> access list"

definition return_reader :: "'a \<Rightarrow> 'a reader" where
  "return_reader x tr = (Inr x, tr)"

definition bind_reader :: "'a reader \<Rightarrow> ('a \<Rightarrow> 'b reader) \<Rightarrow> 'b reader" where
  "bind_reader m f tr = (case m tr of (Inl e, tr') \<Rightarrow> (Inl e, tr') | (Inr x, tr') \<Rightarrow> f x tr')"

definition as_string :: "variables_map \<Rightarrow> string \<Rightarrow> string reader" where
  "as_string vm name tr =
     ((case vm name of Some (string_value s) \<Rightarrow> Inr s | _ \<Rightarrow> Inl bad_any_cast),
      tr @ [option_read name])"

definition as_Vector3i :: "variables_map \<Rightarrow> string \<Rightarrow> (int \<times> int \<times> int) reader" where
  "as_Vector3i vm name tr =
     ((case vm name of Some (Vector3i_value x y z) \<Rightarrow> Inr (x, y, z) | _ \<Rightarrow> Inl bad_any_cast),
      tr @ [option_read name])"

definition as_uint :: "variables_map \<Rightarrow> string \<Rightarrow> uint reader" where
  "as_uint vm name tr =
     ((case vm name of Some (uint_value n) \<Rightarrow> Inr n | _ \<Rightarrow> Inl bad_any_cast),
      tr @ [option_read name])"

definition as_double :: "variables_map \<Rightarrow> string \<Rightarrow> double reader" where
  "as_double vm name tr =
     ((case vm name of Some (double_value d) \<Rightarrow> Inr d | _ \<Rightarrow> Inl bad_any_cast),
      tr @ [option_read name])"

definition as_Vector3d :: "variables_map \<Rightarrow> string \<Rightarrow> (double \<times> double \<times> double) reader" where
  "as_Vector3d vm name tr =
     ((case vm name of Some (Vector3d_value x y z) \<Rightarrow> Inr (x, y, z) | _ \<Rightarrow> Inl bad_any_cast),
      tr @ [option_read name])"

definition csv_read :: "(string \<Rightarrow> error + 'a) \<Rightarrow> string \<Rightarrow> 'a reader" where
  "csv_read files path tr = (files path, tr @ [file_read path])"

text \<open>
  \<^verbatim>\<open>MagSpec spec;\<close> default-constructs the local: its location matrix is the 0 by 0 one;
  the built-in members of the other fields are not initialised, and their contents are the
  parameters \<open>v\<close>, \<open>n\<close> and \<open>b\<close>. Likewise \<^verbatim>\<open>MagResults s;\<close> has no readings and an
  uninitialised likelihood \<open>lk\<close>.
\<close>

definition MagSpec_default :: "VoxelSpec \<Rightarrow> NoiseSpec \<Rightarrow> double list \<Rightarrow> MagSpec" where
  "MagSpec_default v n b =
     \<lparr>locations = MatrixXd_default, voxelisation = v, noise = n, backgroundField = b\<rparr>"

definition MagResults_default :: "double \<Rightarrow> MagResults" where
  "MagResults_default lk = \<lparr>likelihood = lk, readings = []\<rparr>"

definition parseSpec ::
  "VoxelSpec \<Rightarrow> NoiseSpec \<Rightarrow> double list \<Rightarrow> (string \<Rightarrow> error + MatrixXd) \<Rightarrow>
   variables_map \<Rightarrow> ForwardModel set \<Rightarrow> MagSpec reader" where
  "parseSpec v n b files vm sensorsEnabled =
     (let spec = MagSpec_default v n b in
      if MAGNETICS \<in> sensorsEnabled then
        bind_reader (as_string vm ''magnetism.sensorLocations'') (\<lambda>path.
        bind_reader (csv_read files path) (\<lambda>locs.
        bind_reader (as_Vector3i vm ''magnetism.gridResolution'') (\<lambda>(magRes0, magRes1, magRes2).
        bind_reader (as_uint vm ''magnetism.supersample'') (\<lambda>ss.
        bind_reader (as_double vm ''magnetism.noiseAlpha'') (\<lambda>alpha.
        bind_reader (as_double vm ''magnetism.noiseBeta'') (\<lambda>beta.
        bind_reader (as_Vector3d vm ''magnetism.magneticField'') (\<lambda>(f0, f1, f2).
        return_reader
          (spec\<lparr>locations := locs,
                voxelisation := \<lparr>xResolution = word_of_int magRes0, yResolution = word_of_int magRes1,
                                 zResolution = word_of_int magRes2, supersample = ss\<rparr>,
                noise := \<lparr>inverseGammaAlpha = alpha, inverseGammaBeta = beta\<rparr>,
                backgroundField := [f0, f1, f2]\<rparr>))))))))
      else return_reader spec)"

definition parseSensorReadings ::
  "double \<Rightarrow> (string \<Rightarrow> error + double list) \<Rightarrow> variables_map \<Rightarrow> ForwardModel set \<Rightarrow>
   MagResults reader" where
  "parseSensorReadings lk files vm sensorsEnabled =
     (let s = MagResults_default lk in
      if MAGNETICS \<in> sensorsEnabled then
        bind_reader (as_string vm ''magnetism.sensorReadings'') (\<lambda>path.
        bind_reader (csv_read files path) (\<lambda>rs.
        return_reader (s\<lparr>readings := rs, likelihood := double_0\<rparr>)))
      else return_reader s)"

section \<open>\<^verbatim>\<open>enableProperties\<close>\<close>

text \<open>
  \<^verbatim>\<open>propMasksMask(static_cast<uint>(RockProperty::LogSusceptibility)) = 1;\<close> The
  enumeration \<^verbatim>\<open>RockProperty\<close> is not among the sources; the index of its member is the
  parameter \<open>LogSusceptibility\<close>. \<^verbatim>\<open>operator()\<close> of the vector asserts that the index is
  below its size.
\<close>

definition enableProperties :: "nat \<Rightarrow> int list \<Rightarrow> error + int list" where
  "enableProperties LogSusceptibility propMasksMask =
     (if LogSusceptibility < length propMasksMask
      then Inr (propMasksMask[LogSusceptibility := 1])
      else Inl eigen_assert_failure)"

section \<open>Inputs of the scenarios\<close>

definition scenario_world :: WorldSpec where
  "scenario_world = \<lparr>xBounds = (double_0, double_100), yBounds = (double_0, double_100)\<rparr>"

definition scenario_voxelisation :: VoxelSpec where
  "scenario_voxelisation =
     \<lparr>xResolution = 10, yResolution = 10, zResolution = 10, supersample = 0\<rparr>"

definition scenario_noise :: NoiseSpec where
  "scenario_noise = \<lparr>inverseGammaAlpha = double_1, inverseGammaBeta = double_1\<rparr>"

definition scenario_spec :: "double list list \<Rightarrow> double \<Rightarrow> double \<Rightarrow> MagSpec" where
  "scenario_spec locs a b =
     \<lparr>locations = matrix_of_rows 3 locs,
      voxelisation = scenario_voxelisation,
      noise = \<lparr>inverseGammaAlpha = a, inverseGammaBeta = b\<rparr>,
      backgroundField = [double_0, double_0, double_0]\<rparr>"

definition scenario_result :: "nat \<Rightarrow> MagResults" where
  "scenario_result k = \<lparr>likelihood = double_0, readings = replicate k double_1\<rparr>"

definition scenario_options :: variables_map where
  "scenario_options name =
     (if name = ''magnetism.enabled'' then Some (bool_value True)
      else if name = ''magnetism.sensorLocations'' then Some (string_value ''locations.csv'')
      else if name = ''magnetism.sensorReadings'' then Some (string_value ''readings.csv'')
      else if name = ''magnetism.gridResolution'' then Some (Vector3i_value 10 10 10)
      else if name = ''magnetism.noiseAlpha'' then Some (double_value double_1)
      else if name = ''magnetism.noiseBeta'' then Some (double_value double_1)
      else if name = ''magnetism.supersample'' then Some (uint_value 0)
      else if name = ''magnetism.magneticField''
        then Some (Vector3d_value double_0 double_0 double_0)
      else None)"

definition scenario_matrix_files :: "string \<Rightarrow> error + MatrixXd" where
  "scenario_matrix_files path =
     (if path = ''locations.csv''
      then Inr (matrix_of_rows 3
                  [[double_10, double_10, double_0], [double_200, double_10, double_5]])
      else Inl csv_read_failure)"

definition scenario_vector_files :: "string \<Rightarrow> error + double list" where
  "scenario_vector_files path =
     (if path = ''readings.csv'' then Inr [double_1, double_1] else Inl csv_read_failure)"

definition no_options :: variables_map where
  "no_options name = None"

definition no_matrix_files :: "string \<Rightarrow> error + MatrixXd" where
  "no_matrix_files path = Inl csv_read_failure"

definition no_vector_files :: "string \<Rightarrow> error + double list" where
  "no_vector_files path = Inl csv_read_failure"

section \<open>The wire codec of \<^verbatim>\<open>serial/gravity.cpp\<close>\<close>

text \<open>
  Modelled from the spec: the declarations of \<^verbatim>\<open>GravSpec\<close>, \<^verbatim>\<open>GravParams\<close> and
  \<^verbatim>\<open>GravResults\<close> and the message classes generated from the wire schema
  (\<^verbatim>\<open>serial/serialtypes.pb.h\<close>) are not among the sources. The records have the fields the
  source reads and writes (a Spec of locations, voxelisation and noise, Params with the flag
  for retaining sensor data, Results of a likelihood and readings, as section 3 of the
  specification lists them). A field of a message is unset or holds a value:
  \<^verbatim>\<open>set_f(v)\<close> stores \<open>Some v\<close>, \<^verbatim>\<open>mutable_f()\<close> sets a sub-message, \<^verbatim>\<open>has_f()\<close> tells
  whether the field is set, and \<^verbatim>\<open>f()\<close> returns its value, or the default of its type when
  it is unset (\<open>field_or\<close>). A fresh message has every field unset. Row counts are stored
  in the count fields as they are.
\<close>

record GravSpec =
  locations :: MatrixXd
  voxelisation :: VoxelSpec
  noise :: NoiseSpec

record GravParams =
  returnSensorData :: bool

record GravResults =
  likelihood :: double
  readings :: "double list"

record VoxelisationProtobuf =
  xresolution :: "uint option"
  yresolution :: "uint option"
  zresolution :: "uint option"
  supersample :: "uint option"

record NoiseSpecProtobuf =
  inversegammaalpha :: "double option"
  inversegammabeta :: "double option"

record GravSpecProtobuf =
  numlocations :: "nat option"
  locations :: "string option"
  voxelisation :: "VoxelisationProtobuf option"
  noise :: "NoiseSpecProtobuf option"

record GravParamsProtobuf =
  returnsensordata :: "bool option"

record GravResultsProtobuf =
  likelihood :: "double option"
  numreadings :: "nat option"
  readings :: "string option"

definition field_or :: "'a \<Rightarrow> 'a option \<Rightarrow> 'a" where
  "field_or dflt f = (case f of None \<Rightarrow> dflt | Some v \<Rightarrow> v)"

definition VoxelisationProtobuf_default :: VoxelisationProtobuf where
  "VoxelisationProtobuf_default =
     \<lparr>xresolution = None, yresolution = None, zresolution = None,
      VoxelisationProtobuf.supersample = None\<rparr>"

definition NoiseSpecProtobuf_default :: NoiseSpecProtobuf where
  "NoiseSpecProtobuf_default = \<lparr>inversegammaalpha = None, inversegammabeta = None\<rparr>"

text \<open>
  The helpers \<^verbatim>\<open>matrixString\<close>, \<^verbatim>\<open>stringMatrix\<close> and \<^verbatim>\<open>protobufToString\<close>
  (\<^verbatim>\<open>serial/utility.hpp\<close>) and the library's \<^verbatim>\<open>ParseFromString\<close> are not among the sources
  either. They are parameters of the model: \<open>matrixString\<close> from a matrix (for the readings,
  from a vector) to its bytes, \<open>stringMatrix\<close> from bytes and a row count to the matrix or
  to a failure, \<open>protobufToString\<close> from a message to the wire string, and
  \<open>ParseFromString\<close> from a wire string to the message that parsing leaves in \<^verbatim>\<open>pb\<close>
  (the source ignores the flag it returns). \<open>GravSpec_message\<close>, \<open>GravParams_message\<close> and
  \<open>GravResults_message\<close> are the message \<^verbatim>\<open>pb\<close> that \<^verbatim>\<open>serialise\<close> has filled when it calls
  \<^verbatim>\<open>protobufToString(pb)\<close>.
\<close>

definition GravSpec_message :: "(MatrixXd \<Rightarrow> string) \<Rightarrow> GravSpec \<Rightarrow> GravSpecProtobuf" where
  "GravSpec_message matrixString g =
     \<lparr>numlocations = Some (rows (GravSpec.locations g)),
      GravSpecProtobuf.locations = Some (matrixString (GravSpec.locations g)),
      GravSpecProtobuf.voxelisation =
        Some \<lparr>xresolution = Some (xResolution (GravSpec.voxelisation g)),
              yresolution = Some (yResolution (GravSpec.voxelisation g)),
              zresolution = Some (zResolution (GravSpec.voxelisation g)),
              VoxelisationProtobuf.supersample =
                Some (VoxelSpec.supersample (GravSpec.voxelisation g))\<rparr>,
      GravSpecProtobuf.noise =
        Some \<lparr>inversegammaalpha = Some (inverseGammaAlpha (GravSpec.noise g)),
              inversegammabeta = Some (inverseGammaBeta (GravSpec.noise g))\<rparr>\<rparr>"

definition serialise_GravSpec ::
  "(MatrixXd \<Rightarrow> string) \<Rightarrow> (GravSpecProtobuf \<Rightarrow> string) \<Rightarrow> GravSpec \<Rightarrow> string" where
  "serialise_GravSpec matrixString protobufToString g =
     protobufToString (GravSpec_message matrixString g)"

definition unserialise_GravSpec ::
  "(string \<Rightarrow> nat \<Rightarrow> error + MatrixXd) \<Rightarrow> (string \<Rightarrow> GravSpecProtobuf) \<Rightarrow>
   string \<Rightarrow> GravSpec \<Rightarrow> error + GravSpec" where
  "unserialise_GravSpec stringMatrix ParseFromString s g =
     (let pb = ParseFromString s;
          vpb = field_or VoxelisationProtobuf_default (GravSpecProtobuf.voxelisation pb);
          npb = field_or NoiseSpecProtobuf_default (GravSpecProtobuf.noise pb)
      in case stringMatrix (field_or [] (GravSpecProtobuf.locations pb))
                (field_or 0 (numlocations pb)) of
           Inl e \<Rightarrow> Inl e
         | Inr m \<Rightarrow>
             Inr (g\<lparr>GravSpec.locations := m,
                    GravSpec.voxelisation :=
                      (GravSpec.voxelisation g)
                        \<lparr>xResolution := field_or 0 (xresolution vpb),
                         yResolution := field_or 0 (yresolution vpb),
                         zResolution := field_or 0 (zresolution vpb),
                         VoxelSpec.supersample :=
                           field_or 0 (VoxelisationProtobuf.supersample vpb)\<rparr>,
                    GravSpec.noise :=
                      (GravSpec.noise g)
                        \<lparr>inverseGammaAlpha := field_or double_0 (inversegammaalpha npb),
                         inverseGammaBeta := field_or double_0 (inversegammabeta npb)\<rparr>\<rparr>))"

definition GravParams_message :: "GravParams \<Rightarrow> GravParamsProtobuf" where
  "GravParams_message g = \<lparr>returnsensordata = Some (returnSensorData g)\<rparr>"

definition serialise_GravParams :: "(GravParamsProtobuf \<Rightarrow> string) \<Rightarrow> GravParams \<Rightarrow> string" where
  "serialise_GravParams protobufToString g = protobufToString (GravParams_message g)"

definition unserialise_GravParams ::
  "(string \<Rightarrow> GravParamsProtobuf) \<Rightarrow> string \<Rightarrow> GravParams \<Rightarrow> GravParams" where
  "unserialise_GravParams ParseFromString s g =
     (let pb = ParseFromString s
      in g\<lparr>returnSensorData := field_or False (returnsensordata pb)\<rparr>)"

definition GravResults_message ::
  "(double list \<Rightarrow> string) \<Rightarrow> GravResults \<Rightarrow> GravResultsProtobuf" where
  "GravResults_message matrixString g =
     (let pb = \<lparr>GravResultsProtobuf.likelihood = Some (GravResults.likelihood g),
                numreadings = None, GravResultsProtobuf.readings = None\<rparr>
      in if length (GravResults.readings g) > 0
         then pb\<lparr>numreadings := Some (length (GravResults.readings g)),
                 GravResultsProtobuf.readings := Some (matrixString (GravResults.readings g))\<rparr>
         else pb)"

definition serialise_GravResults ::
  "(double list \<Rightarrow> string) \<Rightarrow> (GravResultsProtobuf \<Rightarrow> string) \<Rightarrow> GravResults \<Rightarrow> string" where
  "serialise_GravResults matrixString protobufToString g =
     protobufToString (GravResults_message matrixString g)"

definition has_readings :: "GravResultsProtobuf \<Rightarrow> bool" where
  "has_readings pb = (GravResultsProtobuf.readings pb \<noteq> None)"

definition unserialise_GravResults ::
  "(string \<Rightarrow> nat \<Rightarrow> error + double list) \<Rightarrow> (string \<Rightarrow> GravResultsProtobuf) \<Rightarrow>
   string \<Rightarrow> GravResults \<Rightarrow> error + GravResults" where
  "unserialise_GravResults stringMatrix ParseFromString s g =
     (let pb = ParseFromString s;
          g1 = g\<lparr>GravResults.likelihood := field_or double_0 (GravResultsProtobuf.likelihood pb)\<rparr>
      in if has_readings pb
         then (case stringMatrix (field_or [] (GravResultsProtobuf.readings pb))
                      (field_or 0 (numreadings pb)) of
                 Inl e \<Rightarrow> Inl e
               | Inr v \<Rightarrow> Inr (g1\<lparr>GravResults.readings := v\<rparr>))
         else Inr g1)"

section \<open>Inputs of the wire scenarios\<close>

text \<open>
  Sample values, and sample instances of the codec parameters that are exact on them: each
  writes one fixed string and reads that string back as the value it stands for.
\<close>

definition sample_GravSpec :: GravSpec where
  "sample_GravSpec =
     \<lparr>GravSpec.locations =
        matrix_of_rows 3 [[double_10, double_10, double_0], [double_200, double_10, double_5]],
      GravSpec.voxelisation = scenario_voxelisation,
      GravSpec.noise = scenario_noise\<rparr>"

definition sample_GravParams :: GravParams where
  "sample_GravParams = \<lparr>returnSensorData = True\<rparr>"

definition sample_GravResults :: GravResults where
  "sample_GravResults =
     \<lparr>GravResults.likelihood = double_5, GravResults.readings = [double_1, double_7]\<rparr>"

definition empty_GravResults :: GravResults where
  "empty_GravResults = \<lparr>GravResults.likelihood = double_5, GravResults.readings = []\<rparr>"

definition used_GravResults :: GravResults where
  "used_GravResults = \<lparr>GravResults.likelihood = double_0, GravResults.readings = [double_1]\<rparr>"

definition sample_matrixString :: "MatrixXd \<Rightarrow> string" where
  "sample_matrixString m = ''location bytes''"

definition sample_stringMatrix :: "string \<Rightarrow> nat \<Rightarrow> error + MatrixXd" where
  "sample_stringMatrix s n =
     (if s = ''location bytes'' \<and> n = 2 then Inr (GravSpec.locations sample_GravSpec)
      else Inl MalformedPayload)"

definition sample_vectorString :: "double list \<Rightarrow> string" where
  "sample_vectorString v = ''reading bytes''"

definition sample_stringVector :: "string \<Rightarrow> nat \<Rightarrow> error + double list" where
  "sample_stringVector s n =
     (if s = ''reading bytes'' \<and> n = 2 then Inr (GravResults.readings sample_GravResults)
      else Inl MalformedPayload)"

definition sample_GravSpec_wire :: "GravSpecProtobuf \<Rightarrow> string" where
  "sample_GravSpec_wire pb = ''spec wire''"

definition sample_GravSpec_parse :: "string \<Rightarrow> GravSpecProtobuf" where
  "sample_GravSpec_parse s = GravSpec_message sample_matrixString sample_GravSpec"

definition sample_GravParams_wire :: "GravParamsProtobuf \<Rightarrow> string" where
  "sample_GravParams_wire pb = ''params wire''"

definition sample_GravParams_parse :: "string \<Rightarrow> GravParamsProtobuf" where
  "sample_GravParams_parse s = GravParams_message sample_GravParams"

definition sample_GravResults_wire :: "GravResultsProtobuf \<Rightarrow> string" where
  "sample_GravResults_wire pb = ''results wire''"

definition sample_GravResults_parse :: "string \<Rightarrow> GravResultsProtobuf" where
  "sample_GravResults_parse s = GravResults_message sample_vectorString sample_GravResults"

definition empty_GravResults_parse :: "string \<Rightarrow> GravResultsProtobuf" where
  "empty_GravResults_parse s = GravResults_message sample_vectorString empty_GravResults"

section \<open>Values of the double literals\<close>

lemma double_0_val: "\<not> double_isnan double_0" "double_scaled double_0 = 0"
  by (simp_all add: double_0_def double_isnan_def double_scaled_def double_magnitude_def
      double_exponent_def double_fraction_def)

lemma double_1_parts:
  "double_exponent double_1 = 1023" "double_fraction double_1 = 0" "\<not> bit double_1 63"
  by (simp_all add: double_1_def double_exponent_def double_fraction_def)

lemma double_1_val: "\<not> double_isnan double_1" "double_scaled double_1 = 1 * 2 ^ 1074"
  by (simp_all add: double_isnan_def double_scaled_def double_magnitude_def double_1_parts)

lemma double_5_parts:
  "double_exponent double_5 = 1025" "double_fraction double_5 = 0x4000000000000"
  "\<not> bit double_5 63"
  by (simp_all add: double_5_def double_exponent_def double_fraction_def)

lemma double_5_val: "\<not> double_isnan double_5" "double_scaled double_5 = 5 * 2 ^ 1074"
  by (simp_all add: double_isnan_def double_scaled_def double_magnitude_def double_5_parts)

lemma double_7_parts:
  "double_exponent double_7 = 1025" "double_fraction double_7 = 0xC000000000000"
  "\<not> bit double_7 63"
  by (simp_all add: double_7_def double_exponent_def double_fraction_def)

lemma double_7_val: "\<not> double_isnan double_7" "double_scaled double_7 = 7 * 2 ^ 1074"
  by (simp_all add: double_isnan_def double_scaled_def double_magnitude_def double_7_parts)

lemma double_10_parts:
  "double_exponent double_10 = 1026" "double_fraction double_10 = 0x4000000000000"
  "\<not> bit double_10 63"
  by (simp_all add: double_10_def double_exponent_def double_fraction_def)

lemma double_10_val: "\<not> double_isnan double_10" "double_scaled double_10 = 10 * 2 ^ 1074"
  by (simp_all add: double_isnan_def double_scaled_def double_magnitude_def double_10_parts)

lemma double_100_parts:
  "double_exponent double_100 = 1029" "double_fraction double_100 = 0x9000000000000"
  "\<not> bit double_100 63"
  by (simp_all add: double_100_def double_exponent_def double_fraction_def)

lemma double_100_val: "\<not> double_isnan double_100" "double_scaled double_100 = 100 * 2 ^ 1074"
  by (simp_all add: double_isnan_def double_scaled_def double_magnitude_def double_100_parts)

lemma double_200_parts:
  "double_exponent double_200 = 1030" "double_fraction double_200 = 0x9000000000000"
  "\<not> bit double_200 63"
  by (simp_all add: double_200_def double_exponent_def double_fraction_def)

lemma double_200_val: "\<not> double_isnan double_200" "double_scaled double_200 = 200 * 2 ^ 1074"
  by (simp_all add: double_isnan_def double_scaled_def double_magnitude_def double_200_parts)

lemmas double_vals = double_0_val double_1_val double_5_val double_7_val double_10_val
  double_100_val double_200_val

lemma scenario_compare:
  "\<not> double_less double_10 double_0" "\<not> double_less double_100 double_10"
  "\<not> double_less double_200 double_0" "double_less double_100 double_200"
  "\<not> double_le double_1 double_0" "double_le double_0 double_0"
  "double_le double_0 double_10" "double_le double_10 double_100"
  "double_less double_0 double_1" "\<not> double_less double_0 double_0"
  by (simp_all add: double_less_def double_le_def double_vals)

lemma show_nat_digit: "n < 10 \<Longrightarrow> show_nat n = [''0123456789'' ! n]"
  by (simp add: show_nat.simps)

lemma matrix_of_rows_1:
  "matrix_of_rows 3 [[a, b, c]] = \<lparr>rows = 1, cols = 3, data = [a, b, c]\<rparr>"
  by (simp add: matrix_of_rows_def numeral_3_eq_3)

lemma matrix_of_rows_2:
  "matrix_of_rows 3 [[a, b, c], [d, e, f]] = \<lparr>rows = 2, cols = 3, data = [a, d, b, e, c, f]\<rparr>"
  by (simp add: matrix_of_rows_def numeral_3_eq_3)

lemma matrix_of_rows_3:
  "matrix_of_rows 3 [[a, b, c], [d, e, f], [g, h, i]]
   = \<lparr>rows = 3, cols = 3, data = [a, d, g, b, e, h, c, f, i]\<rparr>"
  by (simp add: matrix_of_rows_def numeral_3_eq_3)

lemma matrix_of_rows_0: "matrix_of_rows 3 [] = \<lparr>rows = 0, cols = 3, data = []\<rparr>"
  by (simp add: matrix_of_rows_def numeral_3_eq_3)

section \<open>Counts and the \<^verbatim>\<open>uint\<close> counter\<close>

lemma unat_static_cast_uint: "n < 2 ^ 32 \<Longrightarrow> unat (static_cast_uint n) = n"
  by (simp add: static_cast_uint_def unat_of_nat)

lemma static_cast_uint_unat: "static_cast_uint (unat l) = l"
  by (simp add: static_cast_uint_def)

lemma static_cast_uint_numerals [simp]:
  "static_cast_uint 0 = 0" "static_cast_uint 1 = 1" "static_cast_uint 2 = 2"
  "static_cast_uint 3 = 3"
  by (simp_all add: static_cast_uint_def)

lemma unat_succ_le: "unat ((l::uint) + 1) \<le> unat l + 1"
  by (simp add: unat_word_ariths)

lemma unat_succ: "unat (l::uint) + 1 < 2 ^ 32 \<Longrightarrow> unat (l + 1) = unat l + 1"
  by (simp add: unat_word_ariths)

lemma unat_uint_bound: "unat (l::uint) < 2 ^ 32"
  using unsigned_less[of l] by simp

section \<open>The loop over the locations\<close>

lemma fail_check_simps [simp]:
  "fst (fail_check line st) = False" "snd (fail_check line st) = snd st @ [line]"
  by (simp_all add: fail_check_def)

lemma check_locations_exit:
  "rows m \<le> unat l \<Longrightarrow> check_locations world m l st = Some (Inr st)"
  by (subst check_locations.simps) simp

lemma check_locations_step:
  "unat l < rows m \<Longrightarrow>
   check_locations world m l st =
     (case out_of_world_bounds world m (unat l) of
        Inl e \<Rightarrow> Some (Inl e)
      | Inr outside \<Rightarrow>
          check_locations world m (l + 1)
            (if outside then fail_check (out_of_bounds_line l) st else st))"
  by (subst check_locations.simps) simp

text \<open>
  Whenever the loop ends: once \<^verbatim>\<open>valid\<close> is false it stays false, no logged line is
  removed, \<^verbatim>\<open>valid\<close> is cleared exactly where a line is logged, and a row outside the
  world bounds, at or after the counter, has cleared \<^verbatim>\<open>valid\<close> and logged its line.
\<close>

lemma check_locations_ends:
  "check_locations world m l st = Some r \<Longrightarrow>
   \<forall>st'. r = Inr st' \<longrightarrow>
     (fst st' \<longrightarrow> fst st) \<and> set (snd st) \<subseteq> set (snd st')
     \<and> (fst st = (snd st = []) \<longrightarrow> fst st' = (snd st' = []))
     \<and> (\<forall>k. unat l \<le> k \<and> k < rows m \<and> out_of_world_bounds world m k = Inr True \<longrightarrow>
            \<not> fst st' \<and> out_of_bounds_line (static_cast_uint k) \<in> set (snd st'))"
proof (induction rule: check_locations.raw_induct[rotated 1, consumes 1])
  case (1 rec world m l st r)
  show ?case
  proof (cases "unat l < rows m")
    case False
    with 1(2) show ?thesis by auto
  next
    case True
    show ?thesis
    proof (cases "out_of_world_bounds world m (unat l)")
      case (Inl e)
      with True 1(2) show ?thesis by auto
    next
      case (Inr outside)
      let ?st = "if outside then fail_check (out_of_bounds_line l) st else st"
      from Inr True 1(2) have call: "rec world m (l + 1) ?st = Some r" by simp
      note IH = 1(1)[OF call]
      show ?thesis
      proof (intro allI impI)
        fix st'
        assume r: "r = Inr st'"
        from IH r have a: "fst st' \<longrightarrow> fst ?st" and b: "set (snd ?st) \<subseteq> set (snd st')"
          and c: "fst ?st = (snd ?st = []) \<longrightarrow> fst st' = (snd st' = [])"
          and d: "\<And>k. unat (l + 1) \<le> k \<Longrightarrow> k < rows m \<Longrightarrow>
                 out_of_world_bounds world m k = Inr True \<Longrightarrow>
                 \<not> fst st' \<and> out_of_bounds_line (static_cast_uint k) \<in> set (snd st')"
          by blast+
        have 1: "fst st' \<longrightarrow> fst st" using a by (cases outside) simp_all
        have 2: "set (snd st) \<subseteq> set (snd st')" using b by (cases outside) auto
        have 3: "fst st = (snd st = []) \<longrightarrow> fst st' = (snd st' = [])"
          using c by (cases outside) simp_all
        have 4: "\<not> fst st' \<and> out_of_bounds_line (static_cast_uint k) \<in> set (snd st')"
          if k: "unat l \<le> k \<and> k < rows m \<and> out_of_world_bounds world m k = Inr True" for k
        proof (cases "k = unat l")
          case True
          with k Inr have "outside" by simp
          with a b show ?thesis
            by (auto simp: True static_cast_uint_unat)
        next
          case False
          with k have "unat l + 1 \<le> k" by simp
          with unat_succ_le[of l] have "unat (l + 1) \<le> k" by simp
          with d k show ?thesis by blast
        qed
        from 1 2 3 4 show "(fst st' \<longrightarrow> fst st) \<and> set (snd st) \<subseteq> set (snd st')
          \<and> (fst st = (snd st = []) \<longrightarrow> fst st' = (snd st' = []))
          \<and> (\<forall>k. unat l \<le> k \<and> k < rows m \<and> out_of_world_bounds world m k = Inr True \<longrightarrow>
                \<not> fst st' \<and> out_of_bounds_line (static_cast_uint k) \<in> set (snd st'))"
          by blast
      qed
    qed
  qed
qed

lemma check_locations_valid:
  "check_locations world m l st = Some (Inr st') \<Longrightarrow> fst st' \<Longrightarrow> fst st"
  using check_locations_ends by blast

lemma check_locations_log:
  "check_locations world m l st = Some (Inr st') \<Longrightarrow> set (snd st) \<subseteq> set (snd st')"
  using check_locations_ends by blast

lemma check_locations_flag:
  "check_locations world m l st = Some (Inr st') \<Longrightarrow> fst st = (snd st = []) \<Longrightarrow>
   fst st' = (snd st' = [])"
  using check_locations_ends by blast

lemma check_locations_outside:
  "check_locations world m l st = Some (Inr st') \<Longrightarrow> unat l \<le> k \<Longrightarrow> k < rows m \<Longrightarrow>
   out_of_world_bounds world m k = Inr True \<Longrightarrow>
   \<not> fst st' \<and> out_of_bounds_line (static_cast_uint k) \<in> set (snd st')"
  using check_locations_ends by blast

text \<open>
  The counter never reaches a row count of \<open>2 ^ 32\<close> or more: on such a table the loop does
  not end, unless a read fails its assertion.
\<close>

lemma check_locations_wraps:
  "check_locations world m l st = Some r \<Longrightarrow> 2 ^ 32 \<le> rows m \<longrightarrow> (\<forall>st'. r \<noteq> Inr st')"
proof (induction rule: check_locations.raw_induct[rotated 1, consumes 1])
  case (1 rec world m l st r)
  show ?case
  proof
    assume big: "2 ^ 32 \<le> rows m"
    with unat_uint_bound[of l] have True: "unat l < rows m" by simp
    show "\<forall>st'. r \<noteq> Inr st'"
    proof (cases "out_of_world_bounds world m (unat l)")
      case (Inl e)
      with True 1(2) show ?thesis by auto
    next
      case (Inr outside)
      with True 1(2)
      have "rec world m (l + 1)
              (if outside then fail_check (out_of_bounds_line l) st else st) = Some r"
        by simp
      from 1(1)[OF this] big show ?thesis by blast
    qed
  qed
qed

text \<open>
  On a table of fewer than \<open>2 ^ 32\<close> rows and at least two columns every read of the loop
  is in range, the counter does not wrap, and the loop ends.
\<close>

lemma out_of_world_bounds_returns:
  "l < rows m \<Longrightarrow> 2 \<le> cols m \<Longrightarrow> \<exists>b. out_of_world_bounds world m l = Inr b"
  by (auto simp: out_of_world_bounds_def coeff_def)

lemma check_locations_returns:
  "rows m < 2 ^ 32 \<Longrightarrow> 2 \<le> cols m \<Longrightarrow>
   \<exists>st'. check_locations world m l st = Some (Inr st')"
proof (induction "rows m - unat l" arbitrary: l st rule: less_induct)
  case less
  show ?case
  proof (cases "unat l < rows m")
    case False
    then show ?thesis by (simp add: check_locations_exit)
  next
    case True
    from out_of_world_bounds_returns[OF True less.prems(2)] obtain b
      where o: "out_of_world_bounds world m (unat l) = Inr b" by blast
    from True less.prems(1) have "unat l + 1 < 2 ^ 32" by simp
    then have s: "unat (l + 1) = unat l + 1" by (rule unat_succ)
    with True have "rows m - unat (l + 1) < rows m - unat l" by simp
    from less.hyps[OF this less.prems] show ?thesis
      by (simp add: check_locations_step[OF True] o)
  qed
qed

text \<open>
  On a table of \<open>2 ^ 32\<close> rows or more and at least two columns no read fails, and the
  loop runs forever.
\<close>

lemma check_locations_never_ends_aux:
  "check_locations world m l st = Some r \<Longrightarrow> 2 ^ 32 \<le> rows m \<and> 2 \<le> cols m \<longrightarrow> False"
proof (induction rule: check_locations.raw_induct[rotated 1, consumes 1])
  case (1 rec world m l st r)
  show ?case
  proof
    assume big: "2 ^ 32 \<le> rows m \<and> 2 \<le> cols m"
    with unat_uint_bound[of l] have True: "unat l < rows m" by simp
    from out_of_world_bounds_returns[OF True, of world] big obtain outside
      where o: "out_of_world_bounds world m (unat l) = Inr outside" by blast
    with True 1(2)
    have "rec world m (l + 1)
            (if outside then fail_check (out_of_bounds_line l) st else st) = Some r"
      by simp
    from 1(1)[OF this] big show False by blast
  qed
qed

lemma check_locations_never_ends:
  "2 ^ 32 \<le> rows m \<Longrightarrow> 2 \<le> cols m \<Longrightarrow> check_locations world m l st = None"
  using check_locations_never_ends_aux[of world m l st] by (cases "check_locations world m l st") auto

text \<open>The loop reads columns 0 and 1 only.\<close>

lemma out_of_world_bounds_cong:
  "coeff m' l 0 = coeff m l 0 \<Longrightarrow> coeff m' l 1 = coeff m l 1 \<Longrightarrow>
   out_of_world_bounds world m' l = out_of_world_bounds world m l"
  by (simp only: out_of_world_bounds_def)

lemma check_locations_cong_aux:
  "check_locations world m l st = Some r \<Longrightarrow>
   \<forall>m'. rows m' = rows m \<and> (\<forall>i. coeff m' i 0 = coeff m i 0)
        \<and> (\<forall>i. coeff m' i 1 = coeff m i 1)
      \<longrightarrow> check_locations world m' l st = Some r"
proof (induction rule: check_locations.raw_induct[rotated 1, consumes 1])
  case (1 rec world m l st r)
  show ?case
  proof (intro allI impI)
    fix m'
    assume m': "rows m' = rows m \<and> (\<forall>i. coeff m' i 0 = coeff m i 0)
        \<and> (\<forall>i. coeff m' i 1 = coeff m i 1)"
    then have eq: "out_of_world_bounds world m' (unat l) = out_of_world_bounds world m (unat l)"
      by (intro out_of_world_bounds_cong) simp_all
    show "check_locations world m' l st = Some r"
    proof (cases "unat l < rows m")
      case False
      with 1(2) m' show ?thesis by (simp add: check_locations_exit)
    next
      case True
      with m' have True': "unat l < rows m'" by simp
      show ?thesis
      proof (cases "out_of_world_bounds world m (unat l)")
        case (Inl e)
        with True 1(2) eq show ?thesis by (simp add: check_locations_step[OF True'])
      next
        case (Inr outside)
        with True 1(2)
        have "rec world m (l + 1)
                (if outside then fail_check (out_of_bounds_line l) st else st) = Some r"
          by simp
        from 1(1)[OF this] m' Inr eq show ?thesis
          by (simp add: check_locations_step[OF True'])
      qed
    qed
  qed
qed

lemma check_locations_cong:
  assumes "rows m' = rows m" and "\<And>i. coeff m' i 0 = coeff m i 0"
    and "\<And>i. coeff m' i 1 = coeff m i 1"
  shows "check_locations world m' l st = check_locations world m l st"
proof (cases "check_locations world m l st")
  case (Some r)
  from check_locations_cong_aux[OF Some] assms show ?thesis by (simp add: Some)
next
  case None
  show ?thesis
  proof (cases "check_locations world m' l st")
    case (Some r)
    from check_locations_cong_aux[OF Some] assms have "check_locations world m l st = Some r"
      by simp
    with None show ?thesis by simp
  next
    case None': None
    with None show ?thesis by simp
  qed
qed

section \<open>The checks around the loop\<close>

lemma checks_after_loop_valid: "fst (checks_after_loop spec result st) \<Longrightarrow> fst st"
  by (simp add: checks_after_loop_def Let_def split: if_splits)

lemma checks_after_loop_log: "set (snd st) \<subseteq> set (snd (checks_after_loop spec result st))"
  by (auto simp: checks_after_loop_def Let_def)

lemma checks_after_loop_mismatch:
  "unat (static_cast_uint (rows (MagSpec.locations spec)))
     \<noteq> length (MagResults.readings result) \<Longrightarrow>
   \<exists>log. checks_after_loop spec result st
          = (False, log @ [readings_line (length (MagResults.readings result))
                             (rows (MagSpec.locations spec))])"
  by (simp add: checks_after_loop_def Let_def fail_check_def)

lemmas validateSensor_defs =
  validateSensor_def checks_before_loop_def checks_after_loop_def out_of_world_bounds_def
  coeff_def fail_check_def out_of_bounds_line_def readings_line_def static_cast_uint_def
  scenario_spec_def scenario_world_def scenario_result_def scenario_voxelisation_def

text \<open>
  When the function returns, the flag is true if and only if nothing was logged.
\<close>

lemma validateSensor_flag:
  "validateSensor world spec result = Some (Inr (valid, log)) \<Longrightarrow> valid = (log = [])"
proof -
  assume v: "validateSensor world spec result = Some (Inr (valid, log))"
  then obtain st3
    where st3: "check_locations world (MagSpec.locations spec) 0 (checks_before_loop spec)
                = Some (Inr st3)"
      and res: "checks_after_loop spec result st3 = (valid, log)"
    by (auto simp: validateSensor_def split: option.splits sum.splits)
  have "fst (checks_before_loop spec) = (snd (checks_before_loop spec) = [])"
    by (simp add: checks_before_loop_def Let_def)
  from check_locations_flag[OF st3 this]
  have "fst (checks_after_loop spec result st3) = (snd (checks_after_loop spec result st3) = [])"
    by (simp add: checks_after_loop_def Let_def)
  with res show ?thesis by simp
qed

text \<open>On a table of \<open>2 ^ 32\<close> rows or more the function never returns a flag.\<close>

lemma validateSensor_wraps:
  "2 ^ 32 \<le> rows (MagSpec.locations spec) \<Longrightarrow>
   validateSensor world spec result \<noteq> Some (Inr v)"
  using check_locations_wraps[of world "MagSpec.locations spec" 0 "checks_before_loop spec"]
  by (auto simp: validateSensor_def split: option.splits sum.splits)

text \<open>
  On a table of fewer than \<open>2 ^ 32\<close> rows and at least two columns, and on one without
  rows, the function returns.
\<close>

lemma validateSensor_returns:
  assumes "rows (MagSpec.locations spec) = 0
           \<or> rows (MagSpec.locations spec) < 2 ^ 32 \<and> 2 \<le> cols (MagSpec.locations spec)"
  shows "\<exists>st3. check_locations world (MagSpec.locations spec) 0 (checks_before_loop spec)
                 = Some (Inr st3)
               \<and> validateSensor world spec result
                 = Some (Inr (checks_after_loop spec result st3))"
proof -
  have "\<exists>st3. check_locations world (MagSpec.locations spec) 0 (checks_before_loop spec)
                 = Some (Inr st3)"
    using assms
  proof
    assume "rows (MagSpec.locations spec) = 0"
    then show ?thesis by (simp add: check_locations_exit)
  next
    assume "rows (MagSpec.locations spec) < 2 ^ 32 \<and> 2 \<le> cols (MagSpec.locations spec)"
    then show ?thesis by (blast intro: check_locations_returns)
  qed
  then show ?thesis by (auto simp: validateSensor_def)
qed

section \<open>Claims about \<^verbatim>\<open>validateSensor\<close>\<close>

text \<open>
  A non-positive first noise hyperparameter always fails the validation: the part of the
  noise check that the source does make.
\<close>

lemma validateSensor_noise_alpha:
  "double_le (inverseGammaAlpha (MagSpec.noise spec)) double_0 \<Longrightarrow>
   validateSensor world spec result \<noteq> Some (Inr (True, log))"
  by (auto simp: validateSensor_def checks_after_loop_def Let_def fail_check_def
      split: option.splits sum.splits)

text \<open>
  C1. The noise check of the source tests \<^verbatim>\<open>inverseGammaAlpha\<close> twice and
  \<^verbatim>\<open>inverseGammaBeta\<close> never. With world bounds [0,100] on both axes, the one location
  (10,10,0), resolutions (10,10,10), one reading and noise (1.0, 0.0), the second
  hyperparameter is not positive, and yet the validation returns true and logs nothing.
\<close>

theorem validateSensor_noise_beta_unchecked:
  "double_le (inverseGammaBeta (MagSpec.noise
       (scenario_spec [[double_10, double_10, double_0]] double_1 double_0))) double_0
   \<and> validateSensor scenario_world
       (scenario_spec [[double_10, double_10, double_0]] double_1 double_0)
       (scenario_result 1)
     = Some (Inr (True, []))"
  by (simp add: validateSensor_defs matrix_of_rows_1 check_locations.simps scenario_compare)

text \<open>
  C3. At the same input the six generic checks of the specification do not all pass (the
  fifth, positive noise hyperparameters, fails), and the validation returns true: the
  returned flag is not the conjunction of the six checks.
\<close>

theorem validateSensor_not_all_generic_checks:
  "generic_checks scenario_world
       (scenario_spec [[double_10, double_10, double_0]] double_1 double_0)
       (scenario_result 1)
     = [True, True, True, True, False, True]
   \<and> validateSensor scenario_world
       (scenario_spec [[double_10, double_10, double_0]] double_1 double_0)
       (scenario_result 1)
     = Some (Inr (True, []))"
  by (simp add: generic_checks_def within_world_bounds_def validateSensor_defs
      matrix_of_rows_1 check_locations.simps scenario_compare)

text \<open>
  Where every read of the loop is in range and the counter cannot wrap (at least two
  columns, fewer than \<open>2 ^ 32\<close> rows), a row with x outside \<open>xBounds\<close> or y outside
  \<open>yBounds\<close> makes the validation return false, with the line of that row logged. In the
  scenario of the specification (bounds [0,100] on both axes, locations (10,10,0) and
  (200,10,5), resolutions (10,10,10), noise (1.0,1.0), two readings) it returns false with
  exactly one line logged, the one of location 2.
\<close>

lemma validateSensor_out_of_bounds:
  assumes "l < rows (MagSpec.locations spec)"
    and "rows (MagSpec.locations spec) < 2 ^ 32"
    and "coeff (MagSpec.locations spec) l 0 = Inr x"
    and "coeff (MagSpec.locations spec) l 1 = Inr y"
    and "double_less x (fst (xBounds world)) \<or> double_less (snd (xBounds world)) x
         \<or> double_less y (fst (yBounds world)) \<or> double_less (snd (yBounds world)) y"
  shows "\<exists>log. validateSensor world spec result = Some (Inr (False, log))
              \<and> out_of_bounds_line (static_cast_uint l) \<in> set log"
proof -
  let ?m = "MagSpec.locations spec"
  from assms(4) have c2: "2 \<le> cols ?m"
    by (auto simp: coeff_def split: if_splits)
  from assms(3,4,5) have out: "out_of_world_bounds world ?m l = Inr True"
    by (auto simp: out_of_world_bounds_def)
  from validateSensor_returns[of spec world result] assms(2) c2 obtain st3
    where st3: "check_locations world ?m 0 (checks_before_loop spec) = Some (Inr st3)"
      and v: "validateSensor world spec result = Some (Inr (checks_after_loop spec result st3))"
    by blast
  from check_locations_outside[OF st3 _ assms(1) out]
  have bad: "\<not> fst st3" and line: "out_of_bounds_line (static_cast_uint l) \<in> set (snd st3)"
    by simp_all
  let ?st6 = "checks_after_loop spec result st3"
  from bad checks_after_loop_valid[of spec result st3] have "\<not> fst ?st6" by blast
  moreover from line checks_after_loop_log[of st3 spec result]
  have "out_of_bounds_line (static_cast_uint l) \<in> set (snd ?st6)" by blast
  ultimately show ?thesis
    using v by (cases ?st6) auto
qed

lemma validateSensor_bounds_scenario:
  "validateSensor scenario_world
     (scenario_spec [[double_10, double_10, double_0], [double_200, double_10, double_5]]
        double_1 double_1)
     (scenario_result 2)
   = Some (Inr (False, [''input: magnetism location 2 is out of world bounds'']))"
  by (simp add: validateSensor_defs matrix_of_rows_2 check_locations.simps scenario_compare
      show_nat_digit)

text \<open>
  C6. On a table with a single column the claim fails. The loop runs whatever the column
  check found, and its condition reads column 1 as soon as the x of a row is within the
  bounds. With bounds [0,100] on both axes and the 2 by 1 table of x = 200 and x = 10, row 0
  has its x outside the bounds; the loop logs it, and at row 1 the read of column 1 fails
  the index assertion of the matrix: the function ends there and returns nothing.
\<close>

theorem validateSensor_out_of_bounds_one_column:
  "coeff (matrix_of_rows 1 [[double_200], [double_10]]) 0 0 = Inr double_200
   \<and> double_less (snd (xBounds scenario_world)) double_200
   \<and> validateSensor scenario_world
       ((scenario_spec [] double_1 double_1)
          \<lparr>MagSpec.locations := matrix_of_rows 1 [[double_200], [double_10]]\<rparr>)
       (scenario_result 2)
     = Some (Inl eigen_assert_failure)"
  by (simp add: validateSensor_defs matrix_of_rows_def check_locations.simps scenario_compare)

text \<open>
  Where the function returns, a reading count that differs from the 32-bit row count makes
  it return false, and the last line it logs is the mismatch line, which carries the
  reading count and the row count in decimal. With three location rows against two
  readings that line reports 2 and 3.
\<close>

lemma validateSensor_reading_count:
  assumes "rows (MagSpec.locations spec) \<noteq> length (MagResults.readings result)"
    and "rows (MagSpec.locations spec) = 0
         \<or> rows (MagSpec.locations spec) < 2 ^ 32 \<and> 2 \<le> cols (MagSpec.locations spec)"
  shows "\<exists>log. validateSensor world spec result
           = Some (Inr (False, log @
               [''input: different number of readings for magnetism results (''
                @ show_nat (length (MagResults.readings result))
                @ '') to location specified. Remove or add more locations (''
                @ show_nat (rows (MagSpec.locations spec)) @ '').'']))"
proof -
  from assms(2) have "rows (MagSpec.locations spec) < 2 ^ 32" by auto
  with assms(1)
  have ne: "unat (static_cast_uint (rows (MagSpec.locations spec)))
      \<noteq> length (MagResults.readings result)"
    by (simp add: unat_static_cast_uint)
  from validateSensor_returns[OF assms(2), of world result] obtain st3
    where v: "validateSensor world spec result = Some (Inr (checks_after_loop spec result st3))"
    by blast
  from checks_after_loop_mismatch[OF ne, of st3] v show ?thesis
    by (auto simp: readings_line_def)
qed

lemma validateSensor_reading_count_any:
  "unat (static_cast_uint (rows (MagSpec.locations spec)))
     \<noteq> length (MagResults.readings result) \<Longrightarrow>
   validateSensor world spec result = Some (Inr (True, log)) \<Longrightarrow> False"
proof -
  assume ne: "unat (static_cast_uint (rows (MagSpec.locations spec)))
     \<noteq> length (MagResults.readings result)"
    and v: "validateSensor world spec result = Some (Inr (True, log))"
  from v obtain st3 where "checks_after_loop spec result st3 = (True, log)"
    by (auto simp: validateSensor_def split: option.splits sum.splits)
  with checks_after_loop_mismatch[OF ne, of st3] show False by auto
qed

lemma validateSensor_reading_count_scenario:
  "validateSensor scenario_world
     (scenario_spec [[double_10, double_10, double_0], [double_10, double_10, double_5],
                     [double_10, double_10, double_7]] double_1 double_1)
     (scenario_result 2)
   = Some (Inr (False, [''input: different number of readings for magnetism results (2) to location specified. Remove or add more locations (3).'']))"
  by (simp add: validateSensor_defs matrix_of_rows_3 check_locations.simps scenario_compare
      show_nat_digit)

text \<open>
  C7. On a table with a single column the claim fails, by the same read of column 1. With
  the 1 by 1 table of x = 10 (within the bounds) against two readings, the counts differ,
  and the function ends at the failed index assertion in the loop, before the check of the
  counts: it returns nothing and logs no mismatch line.
\<close>

theorem validateSensor_reading_count_one_column:
  "rows (matrix_of_rows 1 [[double_10]]) = 1
   \<and> length (MagResults.readings (scenario_result 2)) = 2
   \<and> validateSensor scenario_world
       ((scenario_spec [] double_1 double_1)
          \<lparr>MagSpec.locations := matrix_of_rows 1 [[double_10]]\<rparr>)
       (scenario_result 2)
     = Some (Inl eigen_assert_failure)"
  by (simp add: validateSensor_defs matrix_of_rows_def check_locations.simps scenario_compare)

text \<open>
  C9. Two specifications that differ only in the third column of their locations, with
  the same world and results, get the same outcome from the validation: the same returned
  flag and the same logged lines, or the same failed assertion, or no return from either.
\<close>

theorem validateSensor_ignores_z:
  assumes "rows (MagSpec.locations spec') = rows (MagSpec.locations spec)"
    and "cols (MagSpec.locations spec') = cols (MagSpec.locations spec)"
    and "\<And>i j. j \<noteq> 2 \<Longrightarrow>
           coeff (MagSpec.locations spec') i j = coeff (MagSpec.locations spec) i j"
    and "MagSpec.voxelisation spec' = MagSpec.voxelisation spec"
    and "MagSpec.noise spec' = MagSpec.noise spec"
  shows "validateSensor world spec' result = validateSensor world spec result"
proof -
  have before: "checks_before_loop spec' = checks_before_loop spec"
    by (simp add: checks_before_loop_def assms(1,2))
  have after: "checks_after_loop spec' result st = checks_after_loop spec result st" for st
    by (simp add: checks_after_loop_def assms(1,4,5))
  have loop: "check_locations world (MagSpec.locations spec') 0 st
      = check_locations world (MagSpec.locations spec) 0 st" for st
    by (rule check_locations_cong) (simp_all add: assms(1,3))
  show ?thesis
    by (simp add: validateSensor_def before after loop cong: option.case_cong sum.case_cong)
qed

theorem validateSensor_ignores_z_witness:
  "coeff (MagSpec.locations
       (scenario_spec [[double_10, double_10, double_0], [double_200, double_10, double_5]]
          double_1 double_1)) 0 2 = Inr double_0
   \<and> coeff (MagSpec.locations
       (scenario_spec [[double_10, double_10, double_7], [double_200, double_10, double_100]]
          double_1 double_1)) 0 2 = Inr double_7
   \<and> validateSensor scenario_world
       (scenario_spec [[double_10, double_10, double_7], [double_200, double_10, double_100]]
          double_1 double_1)
       (scenario_result 2)
     = validateSensor scenario_world
       (scenario_spec [[double_10, double_10, double_0], [double_200, double_10, double_5]]
          double_1 double_1)
       (scenario_result 2)"
proof -
  let ?s = "scenario_spec [[double_10, double_10, double_0], [double_200, double_10, double_5]]
          double_1 double_1"
  let ?s' = "scenario_spec [[double_10, double_10, double_7], [double_200, double_10, double_100]]
          double_1 double_1"
  have xy: "coeff (MagSpec.locations ?s') i j = coeff (MagSpec.locations ?s) i j"
    if "j \<noteq> 2" for i j
  proof (cases "i < 2 \<and> j < 3")
    case False
    then show ?thesis
      by (auto simp: scenario_spec_def matrix_of_rows_2 coeff_def)
  next
    case True
    with that have "(i = 0 \<or> i = 1) \<and> (j = 0 \<or> j = 1)" by auto
    then show ?thesis
      by (auto simp: scenario_spec_def matrix_of_rows_2 coeff_def)
  qed
  have "validateSensor scenario_world ?s' (scenario_result 2)
      = validateSensor scenario_world ?s (scenario_result 2)"
    by (rule validateSensor_ignores_z)
      (simp_all add: xy, simp_all add: scenario_spec_def matrix_of_rows_2)
  then show ?thesis
    by (simp add: scenario_spec_def matrix_of_rows_2 coeff_def)
qed

section \<open>Claims about the configuration readers\<close>

text \<open>
  With the sensor enabled \<^verbatim>\<open>parseSpec\<close> does look options up: on a configuration without
  options the first lookup throws, and the trace shows it.
\<close>

lemma parseSpec_enabled_reads:
  "parseSpec v n b files no_options {MAGNETICS} []
   = (Inl bad_any_cast, [option_read ''magnetism.sensorLocations''])"
  by (simp add: parseSpec_def bind_reader_def as_string_def no_options_def)

text \<open>
  With every option present and the location table readable, it returns the parsed
  specification, after looking up the seven options and reading the one file, in the order
  of the source.
\<close>

lemma parseSpec_enabled_scenario:
  "parseSpec v n b scenario_matrix_files scenario_options {MAGNETICS} []
   = (Inr (scenario_spec [[double_10, double_10, double_0], [double_200, double_10, double_5]]
             double_1 double_1),
      [option_read ''magnetism.sensorLocations'', file_read ''locations.csv'',
       option_read ''magnetism.gridResolution'', option_read ''magnetism.supersample'',
       option_read ''magnetism.noiseAlpha'', option_read ''magnetism.noiseBeta'',
       option_read ''magnetism.magneticField''])"
  by (simp add: parseSpec_def bind_reader_def return_reader_def as_string_def csv_read_def
      as_Vector3i_def as_uint_def as_double_def as_Vector3d_def scenario_options_def
      scenario_matrix_files_def scenario_spec_def scenario_voxelisation_def
      MagSpec_default_def)

lemma parseSensorReadings_enabled_scenario:
  "parseSensorReadings lk scenario_vector_files scenario_options {MAGNETICS} []
   = (Inr (scenario_result 2),
      [option_read ''magnetism.sensorReadings'', file_read ''readings.csv''])"
  by (simp add: parseSensorReadings_def bind_reader_def return_reader_def as_string_def
      csv_read_def scenario_options_def scenario_vector_files_def scenario_result_def
      MagResults_default_def numeral_2_eq_2)

lemma parseSpec_not_enabled:
  "MAGNETICS \<notin> sensorsEnabled \<Longrightarrow>
   parseSpec v n b files vm sensorsEnabled tr = (Inr (MagSpec_default v n b), tr)"
  by (simp add: parseSpec_def return_reader_def)

lemma parseSensorReadings_not_enabled:
  "MAGNETICS \<notin> sensorsEnabled \<Longrightarrow>
   parseSensorReadings lk files vm sensorsEnabled tr = (Inr (MagResults_default lk), tr)"
  by (simp add: parseSensorReadings_def return_reader_def)

text \<open>
  C5. When \<^verbatim>\<open>ForwardModel::MAGNETICS\<close> is not in the enabled set, \<^verbatim>\<open>parseSpec\<close> returns the
  default-constructed \<^verbatim>\<open>MagSpec\<close>, whose location matrix has no rows, no columns and no
  coefficients, for every configuration and every file reader; the trace is the one it was
  given, so no option was looked up and no file read.
\<close>

theorem parseSpec_disabled:
  "MAGNETICS \<notin> sensorsEnabled \<Longrightarrow>
   parseSpec v n b files vm sensorsEnabled tr = (Inr (MagSpec_default v n b), tr)
   \<and> rows (MagSpec.locations (MagSpec_default v n b)) = 0
   \<and> cols (MagSpec.locations (MagSpec_default v n b)) = 0
   \<and> data (MagSpec.locations (MagSpec_default v n b)) = []"
  by (simp add: parseSpec_def return_reader_def MagSpec_default_def MatrixXd_default_def)

theorem parseSpec_disabled_witness:
  "MAGNETICS \<notin> {GRAVITY, THERMAL}
   \<and> parseSpec scenario_voxelisation scenario_noise [] no_matrix_files no_options
       {GRAVITY, THERMAL} []
     = (Inr (MagSpec_default scenario_voxelisation scenario_noise []), [])
   \<and> rows (MagSpec.locations (MagSpec_default scenario_voxelisation scenario_noise [])) = 0"
proof -
  have d: "MAGNETICS \<notin> {GRAVITY, THERMAL}" by simp
  from parseSpec_disabled[OF d, of scenario_voxelisation scenario_noise "[]" no_matrix_files
      no_options "[]"] d
  show ?thesis by simp
qed

text \<open>
  C8, as the source has it. \<^verbatim>\<open>validateSensor\<close> takes no enabled set and makes the
  location-count check unconditionally. Applied to what \<^verbatim>\<open>parseSpec\<close> and
  \<^verbatim>\<open>parseSensorReadings\<close> return for a disabled sensor, it returns false, and the first two
  lines it logs are the one for no locations and the one for the column count.
\<close>

theorem validateSensor_disabled:
  assumes "MAGNETICS \<notin> sensorsEnabled"
    and "parseSpec v n b files vm sensorsEnabled tr = (Inr spec, tr')"
    and "parseSensorReadings lk rfiles vm sensorsEnabled tr' = (Inr result, tr'')"
  shows "\<exists>log. validateSensor world spec result
           = Some (Inr (False, no_locations_line # three_cols_line # log))"
proof -
  from assms(2) parseSpec_not_enabled[OF assms(1), of v n b files vm tr]
  have spec: "spec = MagSpec_default v n b" by simp
  from assms(3) parseSensorReadings_not_enabled[OF assms(1), of lk rfiles vm tr']
  have result: "result = MagResults_default lk" by simp
  have before: "checks_before_loop spec = (False, [no_locations_line, three_cols_line])"
    by (simp add: spec checks_before_loop_def MagSpec_default_def MatrixXd_default_def
        fail_check_def static_cast_uint_def)
  have loop: "check_locations world (MagSpec.locations spec) 0 st = Some (Inr st)" for st
    by (rule check_locations_exit)
      (simp add: spec MagSpec_default_def MatrixXd_default_def)
  have "\<exists>log. checks_after_loop spec result (False, [no_locations_line, three_cols_line])
      = (False, no_locations_line # three_cols_line # log)"
    by (simp add: checks_after_loop_def Let_def fail_check_def)
  then show ?thesis
    by (simp add: validateSensor_def before loop)
qed

theorem validateSensor_disabled_witness:
  "MAGNETICS \<notin> {GRAVITY}
   \<and> parseSpec scenario_voxelisation scenario_noise [] no_matrix_files no_options {GRAVITY} []
     = (Inr (MagSpec_default scenario_voxelisation scenario_noise []), [])
   \<and> parseSensorReadings double_0 no_vector_files no_options {GRAVITY} []
     = (Inr (MagResults_default double_0), [])
   \<and> (\<exists>log. validateSensor scenario_world
         (MagSpec_default scenario_voxelisation scenario_noise [])
         (MagResults_default double_0)
       = Some (Inr (False, no_locations_line # three_cols_line # log)))"
proof -
  have d: "MAGNETICS \<notin> {GRAVITY}" by simp
  have p: "parseSpec scenario_voxelisation scenario_noise [] no_matrix_files no_options
      {GRAVITY} [] = (Inr (MagSpec_default scenario_voxelisation scenario_noise []), [])"
    by (simp add: parseSpec_def return_reader_def)
  have q: "parseSensorReadings double_0 no_vector_files no_options {GRAVITY} []
      = (Inr (MagResults_default double_0), [])"
    by (simp add: parseSensorReadings_def return_reader_def)
  from validateSensor_disabled[OF d p q, of scenario_world] d p q
  show ?thesis by simp
qed

text \<open>
  The claim as the specification words it fails: for a disabled sensor, with every other
  field of the empty values passing its check, the validation returns false.
\<close>

theorem validateSensor_disabled_counterexample:
  "parseSpec scenario_voxelisation scenario_noise [] no_matrix_files no_options {} []
     = (Inr (MagSpec_default scenario_voxelisation scenario_noise []), [])
   \<and> parseSensorReadings double_0 no_vector_files no_options {} []
     = (Inr (MagResults_default double_0), [])
   \<and> validateSensor scenario_world
       (MagSpec_default scenario_voxelisation scenario_noise [])
       (MagResults_default double_0)
     = Some (Inr (False, [no_locations_line, three_cols_line]))"
  by (simp add: parseSpec_def parseSensorReadings_def return_reader_def validateSensor_def
      checks_before_loop_def checks_after_loop_def fail_check_def MagSpec_default_def
      MagResults_default_def MatrixXd_default_def check_locations.simps static_cast_uint_def
      scenario_voxelisation_def scenario_noise_def scenario_compare)

section \<open>Claim about \<^verbatim>\<open>enableProperties\<close>\<close>

text \<open>
  C10. On a property mask that has an entry at the index of \<^verbatim>\<open>LogSusceptibility\<close>,
  \<^verbatim>\<open>enableProperties\<close> returns the mask with that entry set to 1: the size is the same
  and every other entry is unchanged, whatever it was.
\<close>

theorem enableProperties_frame:
  "LogSusceptibility < length propMasksMask \<Longrightarrow>
   \<exists>mask'. enableProperties LogSusceptibility propMasksMask = Inr mask'
     \<and> length mask' = length propMasksMask
     \<and> mask' ! LogSusceptibility = 1
     \<and> (\<forall>j. j < length propMasksMask \<and> j \<noteq> LogSusceptibility
            \<longrightarrow> mask' ! j = propMasksMask ! j)"
  by (simp add: enableProperties_def)

theorem enableProperties_frame_witness:
  "(1::nat) < length [1, 0, 1, 0 :: int]
   \<and> enableProperties 1 [1, 0, 1, 0] = Inr [1, 1, 1, 0]"
proof -
  have l: "(1::nat) < length [1, 0, 1, 0 :: int]" by simp
  from enableProperties_frame[OF l] l show ?thesis
    by (simp add: enableProperties_def)
qed

section \<open>Claims about the wire codec\<close>

lemma field_or_simps [simp]: "field_or d None = d" "field_or d (Some v) = v"
  by (simp_all add: field_or_def)

lemma unserialise_serialise_GravSpec:
  assumes "ParseFromString (protobufToString (GravSpec_message matrixString x))
           = GravSpec_message matrixString x"
    and "stringMatrix (matrixString (GravSpec.locations x)) (rows (GravSpec.locations x))
         = Inr (GravSpec.locations x)"
  shows "unserialise_GravSpec stringMatrix ParseFromString
           (serialise_GravSpec matrixString protobufToString x) x0 = Inr x"
  by (simp add: unserialise_GravSpec_def serialise_GravSpec_def assms(1))
    (simp add: GravSpec_message_def assms(2))

lemma unserialise_serialise_GravParams:
  assumes "ParseFromString (protobufToString (GravParams_message p)) = GravParams_message p"
  shows "unserialise_GravParams ParseFromString (serialise_GravParams protobufToString p) p0 = p"
  by (simp add: unserialise_GravParams_def serialise_GravParams_def assms)
    (simp add: GravParams_message_def)

lemma unserialise_serialise_GravResults:
  assumes "ParseFromString (protobufToString (GravResults_message matrixString r))
           = GravResults_message matrixString r"
    and "GravResults.readings r \<noteq> [] \<Longrightarrow>
         stringMatrix (matrixString (GravResults.readings r)) (length (GravResults.readings r))
         = Inr (GravResults.readings r)"
    and "GravResults.readings r = [] \<Longrightarrow> GravResults.readings r0 = []"
  shows "unserialise_GravResults stringMatrix ParseFromString
           (serialise_GravResults matrixString protobufToString r) r0 = Inr r"
proof (cases "GravResults.readings r = []")
  case True
  with assms(3) have "GravResults.readings r0 = []" by simp
  with True show ?thesis
    by (simp add: unserialise_GravResults_def serialise_GravResults_def assms(1))
      (simp add: GravResults_message_def has_readings_def)
next
  case False
  with assms(2) show ?thesis
    by (simp add: unserialise_GravResults_def serialise_GravResults_def assms(1))
      (simp add: GravResults_message_def has_readings_def)
qed

text \<open>
  C2. \<^verbatim>\<open>unserialise\<close> applied to what \<^verbatim>\<open>serialise\<close> wrote gives back the value, every
  field as it was, doubles bit for bit, for \<^verbatim>\<open>GravSpec\<close>, \<^verbatim>\<open>GravParams\<close> and
  \<^verbatim>\<open>GravResults\<close>. The helpers that are parameters are taken to be exact on the value:
  parsing the wire string gives the message written, and decoding the bytes of the matrix
  (of the readings, when there are any) with its row count gives the matrix. For
  \<^verbatim>\<open>GravSpec\<close> and \<^verbatim>\<open>GravParams\<close> the object written into is arbitrary; for
  \<^verbatim>\<open>GravResults\<close> without readings it is one without readings, as a newly constructed one
  is.
\<close>

theorem unserialise_serialise:
  assumes "ParseSpec (toStringSpec (GravSpec_message matrixString x))
           = GravSpec_message matrixString x"
    and "stringMatrix (matrixString (GravSpec.locations x)) (rows (GravSpec.locations x))
         = Inr (GravSpec.locations x)"
    and "ParseParams (toStringParams (GravParams_message p)) = GravParams_message p"
    and "ParseResults (toStringResults (GravResults_message vectorString r))
         = GravResults_message vectorString r"
    and "GravResults.readings r \<noteq> [] \<Longrightarrow>
         stringVector (vectorString (GravResults.readings r)) (length (GravResults.readings r))
         = Inr (GravResults.readings r)"
    and "GravResults.readings r = [] \<Longrightarrow> GravResults.readings r0 = []"
  shows "unserialise_GravSpec stringMatrix ParseSpec
           (serialise_GravSpec matrixString toStringSpec x) x0 = Inr x
       \<and> unserialise_GravParams ParseParams (serialise_GravParams toStringParams p) p0 = p
       \<and> unserialise_GravResults stringVector ParseResults
           (serialise_GravResults vectorString toStringResults r) r0 = Inr r"
proof (intro conjI)
  show "unserialise_GravSpec stringMatrix ParseSpec
           (serialise_GravSpec matrixString toStringSpec x) x0 = Inr x"
    using assms(1,2) by (rule unserialise_serialise_GravSpec)
  show "unserialise_GravParams ParseParams (serialise_GravParams toStringParams p) p0 = p"
    using assms(3) by (rule unserialise_serialise_GravParams)
  show "unserialise_GravResults stringVector ParseResults
           (serialise_GravResults vectorString toStringResults r) r0 = Inr r"
    using assms(4,5,6) by (rule unserialise_serialise_GravResults)
qed

theorem unserialise_serialise_witness:
  "unserialise_GravSpec sample_stringMatrix sample_GravSpec_parse
       (serialise_GravSpec sample_matrixString sample_GravSpec_wire sample_GravSpec)
       \<lparr>GravSpec.locations = MatrixXd_default, GravSpec.voxelisation = scenario_voxelisation,
        GravSpec.noise = scenario_noise\<rparr>
     = Inr sample_GravSpec
   \<and> unserialise_GravParams sample_GravParams_parse
       (serialise_GravParams sample_GravParams_wire sample_GravParams)
       \<lparr>returnSensorData = False\<rparr>
     = sample_GravParams
   \<and> unserialise_GravResults sample_stringVector sample_GravResults_parse
       (serialise_GravResults sample_vectorString sample_GravResults_wire sample_GravResults)
       used_GravResults
     = Inr sample_GravResults
   \<and> rows (GravSpec.locations sample_GravSpec) = 2
   \<and> GravResults.readings sample_GravResults = [double_1, double_7]"
proof -
  have 1: "sample_GravSpec_parse
      (sample_GravSpec_wire (GravSpec_message sample_matrixString sample_GravSpec))
      = GravSpec_message sample_matrixString sample_GravSpec"
    by (simp add: sample_GravSpec_parse_def)
  have rows: "rows (GravSpec.locations sample_GravSpec) = 2"
    by (simp add: sample_GravSpec_def matrix_of_rows_2)
  have 2: "sample_stringMatrix (sample_matrixString (GravSpec.locations sample_GravSpec))
      (rows (GravSpec.locations sample_GravSpec)) = Inr (GravSpec.locations sample_GravSpec)"
    by (simp add: rows sample_stringMatrix_def sample_matrixString_def)
  have 3: "sample_GravParams_parse (sample_GravParams_wire (GravParams_message sample_GravParams))
      = GravParams_message sample_GravParams"
    by (simp add: sample_GravParams_parse_def)
  have 4: "sample_GravResults_parse
      (sample_GravResults_wire (GravResults_message sample_vectorString sample_GravResults))
      = GravResults_message sample_vectorString sample_GravResults"
    by (simp add: sample_GravResults_parse_def)
  have rd: "GravResults.readings sample_GravResults = [double_1, double_7]"
    by (simp add: sample_GravResults_def)
  have 5: "sample_stringVector (sample_vectorString (GravResults.readings sample_GravResults))
      (length (GravResults.readings sample_GravResults))
      = Inr (GravResults.readings sample_GravResults)"
    by (simp add: rd sample_stringVector_def sample_vectorString_def)
  have 6: "GravResults.readings used_GravResults = []"
    if "GravResults.readings sample_GravResults = []"
    using that by (simp add: rd)
  from unserialise_serialise[where ParseSpec = sample_GravSpec_parse
      and toStringSpec = sample_GravSpec_wire and matrixString = sample_matrixString
      and x = sample_GravSpec and stringMatrix = sample_stringMatrix
      and ParseParams = sample_GravParams_parse and toStringParams = sample_GravParams_wire
      and p = sample_GravParams and ParseResults = sample_GravResults_parse
      and toStringResults = sample_GravResults_wire and vectorString = sample_vectorString
      and r = sample_GravResults and stringVector = sample_stringVector
      and ?r0.0 = used_GravResults, OF 1 2 3 4 5 6] rows rd
  show ?thesis
    by simp
qed

text \<open>
  C4, as the source has it. A \<^verbatim>\<open>GravResults\<close> without readings is written as a message
  that has its likelihood set and neither \<^verbatim>\<open>numreadings\<close> nor \<^verbatim>\<open>readings\<close>. On a payload
  whose message has no \<^verbatim>\<open>readings\<close> field, \<^verbatim>\<open>unserialise\<close> assigns the likelihood and
  nothing else: the readings of the object are the ones it held before the call, none if
  it held none, and never a zero-filled vector.
\<close>

theorem GravResults_optional_readings:
  "(GravResults.readings g = [] \<longrightarrow>
      serialise_GravResults matrixString protobufToString g
      = protobufToString
          \<lparr>GravResultsProtobuf.likelihood = Some (GravResults.likelihood g),
           numreadings = None, GravResultsProtobuf.readings = None\<rparr>)
   \<and> (GravResultsProtobuf.readings (ParseFromString s) = None \<longrightarrow>
      unserialise_GravResults stringMatrix ParseFromString s g0
      = Inr (g0\<lparr>GravResults.likelihood :=
                   field_or double_0 (GravResultsProtobuf.likelihood (ParseFromString s))\<rparr>)
      \<and> (\<forall>g'. unserialise_GravResults stringMatrix ParseFromString s g0 = Inr g'
             \<longrightarrow> GravResults.readings g' = GravResults.readings g0))"
  by (auto simp: serialise_GravResults_def GravResults_message_def
      unserialise_GravResults_def has_readings_def Let_def)

theorem GravResults_optional_readings_witness:
  "GravResults.readings empty_GravResults = []
   \<and> serialise_GravResults sample_vectorString sample_GravResults_wire empty_GravResults
     = sample_GravResults_wire
         \<lparr>GravResultsProtobuf.likelihood = Some double_5, numreadings = None,
          GravResultsProtobuf.readings = None\<rparr>
   \<and> GravResultsProtobuf.readings (empty_GravResults_parse ''results wire'') = None
   \<and> unserialise_GravResults sample_stringVector empty_GravResults_parse ''results wire''
       \<lparr>GravResults.likelihood = double_0, GravResults.readings = []\<rparr>
     = Inr empty_GravResults"
proof -
  have e: "GravResults.readings empty_GravResults = []"
    by (simp add: empty_GravResults_def)
  have n: "GravResultsProtobuf.readings (empty_GravResults_parse ''results wire'') = None"
    by (simp add: empty_GravResults_parse_def GravResults_message_def empty_GravResults_def)
  from GravResults_optional_readings[where g = empty_GravResults
      and matrixString = sample_vectorString and protobufToString = sample_GravResults_wire
      and ParseFromString = empty_GravResults_parse and s = "''results wire''"
      and stringMatrix = sample_stringVector
      and ?g0.0 = "\<lparr>GravResults.likelihood = double_0, GravResults.readings = []\<rparr>"]
    e n
  show ?thesis
    by (simp add: empty_GravResults_def empty_GravResults_parse_def GravResults_message_def)
qed

text \<open>
  The claim as the specification words it fails when the object passed to
  \<^verbatim>\<open>unserialise\<close> already holds readings: decoding the payload of a \<^verbatim>\<open>GravResults\<close>
  without readings into an object that holds the reading 1.0 leaves that reading in place.
\<close>

theorem unserialise_GravResults_counterexample:
  "GravResults.readings empty_GravResults = []
   \<and> empty_GravResults_parse
       (serialise_GravResults sample_vectorString sample_GravResults_wire empty_GravResults)
     = \<lparr>GravResultsProtobuf.likelihood = Some double_5, numreadings = None,
        GravResultsProtobuf.readings = None\<rparr>
   \<and> GravResults.readings used_GravResults = [double_1]
   \<and> unserialise_GravResults sample_stringVector empty_GravResults_parse
       (serialise_GravResults sample_vectorString sample_GravResults_wire empty_GravResults)
       used_GravResults
     = Inr \<lparr>GravResults.likelihood = double_5, GravResults.readings = [double_1]\<rparr>"
  by (simp add: empty_GravResults_def used_GravResults_def empty_GravResults_parse_def
      GravResults_message_def unserialise_GravResults_def has_readings_def)


end
